theory Spec2Isabelle
  imports Complex_Main "HOL-Library.Word"
begin

section \<open>Auralink: the persisted schema, the retrieval function and the dashboard clients\<close>

text \<open>
  The development embeds three pieces of the repository:
  \<^item> the Supabase setup script (tables \<open>meetings\<close>, \<open>files\<close>, \<open>utterances\<close>, \<open>chunks\<close>,
    \<open>summaries\<close>, \<open>asr_jobs\<close> and the function \<open>match_chunks\<close>) and the older
    \<open>schemas/db.sql\<close>;
  \<^item> the axios client (\<open>getUtterances\<close>, \<open>askChat\<close>);
  \<^item> the fetch client (\<open>request\<close>, \<open>chat\<close>).

  SQL is declarative, so each statement is given the meaning PostgreSQL gives it: a table
  is the list of its rows (in storage order), \<open>WHERE\<close> keeps the rows on which the
  condition is true, \<open>ORDER BY\<close> sorts by the key, \<open>LIMIT\<close> keeps a prefix, and every
  error PostgreSQL or pgvector raises on the way is a value of \<open>db_error\<close>.
\<close>

subsection \<open>SQL values, rows and errors\<close>

text \<open>
  A \<open>uuid\<close> is a 128-bit value. PostgreSQL reads the text of a uuid before a statement
  runs and refuses a text that is none (\<open>invalid input syntax for type uuid\<close>, SQLSTATE
  22P02), so the statements below only ever receive uuid values. A timestamp is a number
  of microseconds.
\<close>

type_synonym uuid = "128 word"
type_synonym timestamptz = int

text \<open>
  A pgvector value is a non-empty sequence of numbers; only its length is inspected by the
  functions below. \<open>double precision\<close> columns that are stored and returned unchanged
  are typed \<open>real\<close>. The result type of the distance operator is left open (\<open>'d\<close>): the
  query only compares distances and subtracts one of them from \<open>1\<close>, so every theorem
  holds for whatever number type, order and subtraction the database uses.
\<close>

type_synonym vector = "real list"

text \<open>
  The errors of the statements below, by the message PostgreSQL or pgvector raises:
  \<open>different vector dimensions n and m\<close>, \<open>expected n dimensions, not m\<close>,
  \<open>LIMIT must not be negative\<close>, and the violations of a \<open>NOT NULL\<close>, check, unique and
  foreign key constraint.
\<close>

datatype db_error =
    DimensionMismatch nat nat
  | ExpectedDimensions nat nat
  | NegativeLimit
  | NotNullViolation string
  | CheckViolation string
  | UniqueViolation string
  | ForeignKeyViolation string

text \<open>Table \<open>chunks\<close> of the setup script: nine columns, three of them nullable.\<close>

record chunk =
  c_id :: int
  c_meeting_id :: uuid
  c_speaker :: "string option"
  c_start_seconds :: real
  c_end_seconds :: real
  c_topic :: "string option"
  c_text :: string
  c_embedding :: "vector option"
  c_created_at :: timestamptz

text \<open>\<open>RETURNS TABLE (...)\<close> of \<open>match_chunks\<close>: the nine columns and \<open>similarity\<close>.\<close>

record 'd match_row = chunk +
  similarity :: 'd

subsection \<open>The dimension of an embedding\<close>

text \<open>
  The dimension of the column \<open>embedding vector(3072)\<close> of the setup script. The
  signature of \<open>match_chunks\<close> writes the same number twice, in
  \<open>query_embedding vector(3072)\<close> and in the returned \<open>embedding vector(3072)\<close>; neither
  is read when the function is called (see below).
\<close>

definition embedding_dim :: nat where
  "embedding_dim = 3072"

text \<open>
  A column's type modifier is enforced when a row is stored: pgvector refuses a vector of
  another length (\<open>expected 3072 dimensions, not n\<close>). \<open>embedding\<close> is nullable.
\<close>

definition insert_chunk :: "chunk \<Rightarrow> chunk list \<Rightarrow> db_error + chunk list" where
  "insert_chunk c chunks =
     (case c_embedding c of
        None \<Rightarrow> Inr (chunks @ [c])
      | Some e \<Rightarrow>
          if length e = embedding_dim then Inr (chunks @ [c])
          else Inl (ExpectedDimensions embedding_dim (length e)))"

definition chunks_typed :: "chunk list \<Rightarrow> bool" where
  "chunks_typed chunks =
     list_all (\<lambda>c. case c_embedding c of None \<Rightarrow> True | Some e \<Rightarrow> length e = embedding_dim) chunks"

subsection \<open>The retrieval function \<open>match_chunks\<close>\<close>

text \<open>
  \<open>a <=> b\<close> is pgvector's cosine distance operator. It first compares the two
  dimensions and raises \<open>different vector dimensions n and m\<close> when they differ. The
  number it computes otherwise is the parameter \<open>cdist\<close>.
\<close>

definition cosine_op :: "(vector \<Rightarrow> vector \<Rightarrow> 'd) \<Rightarrow> vector \<Rightarrow> vector \<Rightarrow> db_error + 'd" where
  "cosine_op cdist a b =
     (if length a = length b then Inr (cdist a b)
      else Inl (DimensionMismatch (length a) (length b)))"

text \<open>
  \<open>FROM chunks WHERE chunks.meeting_id = p_meeting_id AND chunks.embedding IS NOT NULL\<close>:
  the rows that pass, each with its (non-null) embedding.
\<close>

fun scan_chunks :: "uuid \<Rightarrow> chunk list \<Rightarrow> (chunk \<times> vector) list" where
  "scan_chunks p_meeting_id [] = []"
| "scan_chunks p_meeting_id (c # cs) =
     (case c_embedding c of
        None \<Rightarrow> scan_chunks p_meeting_id cs
      | Some e \<Rightarrow>
          if c_meeting_id c = p_meeting_id then (c, e) # scan_chunks p_meeting_id cs
          else scan_chunks p_meeting_id cs)"

text \<open>
  The select list: the nine columns of the row and
  \<open>1 - (chunks.embedding <=> query_embedding) AS similarity\<close>. The row is paired with its
  sort key \<open>chunks.embedding <=> query_embedding\<close>.
\<close>

definition select_row ::
  "(vector \<Rightarrow> vector \<Rightarrow> 'd) \<Rightarrow> vector \<Rightarrow> chunk \<times> vector
     \<Rightarrow> db_error + ('d \<times> ('d::{linorder,minus,one}) match_row)" where
  "select_row cdist query_embedding ce =
     (case cosine_op cdist (snd ce) query_embedding of
        Inl err \<Rightarrow> Inl err
      | Inr d \<Rightarrow>
          Inr (d, \<lparr> c_id = c_id (fst ce),
                    c_meeting_id = c_meeting_id (fst ce),
                    c_speaker = c_speaker (fst ce),
                    c_start_seconds = c_start_seconds (fst ce),
                    c_end_seconds = c_end_seconds (fst ce),
                    c_topic = c_topic (fst ce),
                    c_text = c_text (fst ce),
                    c_embedding = Some (snd ce),
                    c_created_at = c_created_at (fst ce),
                    similarity = 1 - d \<rparr>))"

text \<open>The rows of the scan are evaluated in turn; the first error ends the query.\<close>

fun eval_rows ::
  "(vector \<Rightarrow> vector \<Rightarrow> 'd) \<Rightarrow> vector \<Rightarrow> (chunk \<times> vector) list
     \<Rightarrow> db_error + ('d \<times> ('d::{linorder,minus,one}) match_row) list" where
  "eval_rows cdist query_embedding [] = Inr []"
| "eval_rows cdist query_embedding (ce # rest) =
     (case select_row cdist query_embedding ce of
        Inl err \<Rightarrow> Inl err
      | Inr r \<Rightarrow>
          (case eval_rows cdist query_embedding rest of
             Inl err \<Rightarrow> Inl err
           | Inr rs \<Rightarrow> Inr (r # rs)))"

text \<open>
  \<open>ORDER BY chunks.embedding <=> query_embedding LIMIT match_count\<close>. PostgreSQL
  computes the count of a \<open>LIMIT\<close> before it reads its input: a negative count is the
  error \<open>LIMIT must not be negative\<close> (SQLSTATE 2201W), and with a count of zero no
  input row is read at all (so no distance is computed). Ties of the sort are in no
  documented order; the stable insertion sort \<open>sort_key\<close> is one of the orders PostgreSQL
  may produce.

  PostgreSQL discards the type modifier of a function argument (\<open>CREATE FUNCTION\<close> keeps
  \<open>vector\<close> of \<open>vector(3072)\<close>), so a call does not compare the length of
  \<open>query_embedding\<close> with 3072: only \<open><=>\<close> compares it, with the embedding of each
  row it is applied to. Arguments are taken to be non-null.
\<close>

definition match_chunks ::
  "(vector \<Rightarrow> vector \<Rightarrow> 'd) \<Rightarrow> chunk list \<Rightarrow> vector \<Rightarrow> uuid \<Rightarrow> int
     \<Rightarrow> db_error + ('d::{linorder,minus,one}) match_row list" where
  "match_chunks cdist chunks query_embedding p_meeting_id match_count =
     (if match_count < 0 then Inl NegativeLimit
      else if match_count = 0 then Inr []
      else
        (case eval_rows cdist query_embedding (scan_chunks p_meeting_id chunks) of
           Inl err \<Rightarrow> Inl err
         | Inr rs \<Rightarrow> Inr (take (nat match_count) (map snd (sort_key fst rs)))))"

text \<open>\<open>match_count int DEFAULT 5\<close>: the call without the third argument.\<close>

definition match_chunks_default ::
  "(vector \<Rightarrow> vector \<Rightarrow> 'd) \<Rightarrow> chunk list \<Rightarrow> vector \<Rightarrow> uuid
     \<Rightarrow> db_error + ('d::{linorder,minus,one}) match_row list" where
  "match_chunks_default cdist chunks query_embedding p_meeting_id =
     match_chunks cdist chunks query_embedding p_meeting_id 5"

text \<open>
  The number \<open>N\<close> of the chunks of a meeting that have a non-null embedding, counted on
  the table itself.
\<close>

definition embedded_count :: "uuid \<Rightarrow> chunk list \<Rightarrow> nat" where
  "embedded_count p_meeting_id chunks =
     length (filter (\<lambda>c. c_meeting_id c = p_meeting_id \<and> c_embedding c \<noteq> None) chunks)"

text \<open>
  pgvector's cosine distance over the reals, \<open>1 - a\<cdot>b / sqrt ((a\<cdot>a) (b\<cdot>b))\<close>, used where
  a concrete operator is needed.
\<close>

fun dot :: "vector \<Rightarrow> vector \<Rightarrow> real" where
  "dot (x # xs) (y # ys) = x * y + dot xs ys"
| "dot xs ys = 0"

definition cosine_distance :: "vector \<Rightarrow> vector \<Rightarrow> real" where
  "cosine_distance a b = 1 - dot a b / sqrt (dot a a * dot b b)"

subsection \<open>The other tables of the setup script\<close>

text \<open>
  A column of an \<open>INSERT\<close> is either left out (the column default applies) or given a
  value, which may be \<open>NULL\<close>.
\<close>

datatype 'a column_input = Default | Given "'a option"

fun resolve :: "'a option \<Rightarrow> 'a column_input \<Rightarrow> 'a option" where
  "resolve dflt Default = dflt"
| "resolve dflt (Given v) = v"

definition not_null :: "string \<Rightarrow> 'a option \<Rightarrow> db_error + 'a" where
  "not_null col v = (case v of None \<Rightarrow> Inl (NotNullViolation col) | Some x \<Rightarrow> Inr x)"

definition bind_err :: "db_error + 'a \<Rightarrow> ('a \<Rightarrow> db_error + 'b) \<Rightarrow> db_error + 'b" where
  "bind_err r f = (case r of Inl err \<Rightarrow> Inl err | Inr x \<Rightarrow> f x)"

text \<open>
  Table \<open>meetings\<close> of the setup script. \<open>title\<close>, \<open>consent\<close>, \<open>status\<close> and the two
  timestamps are \<open>NOT NULL\<close>; \<open>video_url\<close> is nullable.
\<close>

record meeting =
  m_id :: uuid
  m_title :: string
  m_video_url :: "string option"
  m_consent :: bool
  m_status :: string
  m_created_at :: timestamptz
  m_updated_at :: timestamptz

record meeting_insert =
  i_id :: "uuid column_input"
  i_title :: "string column_input"
  i_video_url :: "string column_input"
  i_consent :: "bool column_input"
  i_status :: "string column_input"
  i_created_at :: "timestamptz column_input"
  i_updated_at :: "timestamptz column_input"

text \<open>
  \<open>CONSTRAINT meetings_status_check CHECK (status IN ('uploaded', 'asr_started',
  'asr_done', 'indexed', 'summarized', 'error'))\<close>.
\<close>

definition status_values :: "string list" where
  "status_values =
     [''uploaded'', ''asr_started'', ''asr_done'', ''indexed'', ''summarized'', ''error'']"

definition meetings_status_check :: "string \<Rightarrow> db_error + string" where
  "meetings_status_check s =
     (if s \<in> set status_values then Inr s else Inl (CheckViolation ''meetings_status_check''))"

text \<open>
  \<open>INSERT INTO meetings\<close>. \<open>fresh\<close> is the value of \<open>uuid_generate_v4()\<close> and \<open>now\<close>
  the value of \<open>NOW()\<close>. The column defaults are those of the script: a generated id,
  \<open>FALSE\<close> for \<open>consent\<close>, \<open>'uploaded'\<close> for \<open>status\<close>, the current time for both
  timestamps, and none (\<open>NULL\<close>) for \<open>title\<close> and \<open>video_url\<close>.
\<close>

definition insert_meeting ::
  "uuid \<Rightarrow> timestamptz \<Rightarrow> meeting_insert \<Rightarrow> meeting list \<Rightarrow> db_error + meeting list" where
  "insert_meeting fresh now ins tbl =
     bind_err (not_null ''id'' (resolve (Some fresh) (i_id ins))) (\<lambda>mid.
     bind_err (not_null ''title'' (resolve None (i_title ins))) (\<lambda>title.
     bind_err (not_null ''consent'' (resolve (Some False) (i_consent ins))) (\<lambda>consent.
     bind_err (not_null ''status'' (resolve (Some ''uploaded'') (i_status ins))) (\<lambda>status.
     bind_err (not_null ''created_at'' (resolve (Some now) (i_created_at ins))) (\<lambda>created.
     bind_err (not_null ''updated_at'' (resolve (Some now) (i_updated_at ins))) (\<lambda>updated.
     bind_err (meetings_status_check status) (\<lambda>checked.
       if mid \<in> m_id ` set tbl then Inl (UniqueViolation ''meetings_pkey'')
       else Inr (tbl @ [\<lparr> m_id = mid, m_title = title,
                          m_video_url = resolve None (i_video_url ins),
                          m_consent = consent, m_status = checked,
                          m_created_at = created, m_updated_at = updated \<rparr>]))))))))"

text \<open>
  \<open>UPDATE meetings SET status = v WHERE id = mid\<close>, with \<open>v\<close> possibly \<open>NULL\<close>. The new
  value passes \<open>NOT NULL\<close> and the check constraint before any row changes; the trigger
  \<open>update_meetings_updated_at\<close> sets \<open>updated_at\<close> of each updated row. An update that
  matches no row checks nothing.
\<close>

definition update_meeting_status ::
  "timestamptz \<Rightarrow> uuid \<Rightarrow> string option \<Rightarrow> meeting list \<Rightarrow> db_error + meeting list" where
  "update_meeting_status now mid v tbl =
     (if mid \<notin> m_id ` set tbl then Inr tbl
      else
        bind_err (not_null ''status'' v) (\<lambda>status.
        bind_err (meetings_status_check status) (\<lambda>checked.
          Inr (map (\<lambda>r. if m_id r = mid then r\<lparr> m_status := checked, m_updated_at := now \<rparr> else r)
                 tbl))))"

text \<open>The states of the table \<open>meetings\<close> that inserts, status updates and deletes reach.\<close>

inductive reachable_meetings :: "meeting list \<Rightarrow> bool" where
  empty_table: "reachable_meetings []"
| inserted: "reachable_meetings tbl \<Longrightarrow> insert_meeting fresh now ins tbl = Inr tbl'
     \<Longrightarrow> reachable_meetings tbl'"
| updated: "reachable_meetings tbl \<Longrightarrow> update_meeting_status now mid v tbl = Inr tbl'
     \<Longrightarrow> reachable_meetings tbl'"
| deleted: "reachable_meetings tbl \<Longrightarrow> reachable_meetings (filter (\<lambda>r. m_id r \<noteq> mid) tbl)"

text \<open>
  Table \<open>meetings\<close> of \<open>schemas/db.sql\<close>: five columns, all nullable but the primary
  key, \<open>status TEXT DEFAULT 'processing'\<close>, no check constraint.
\<close>

record db_sql_meeting =
  dm_id :: uuid
  dm_title :: "string option"
  dm_created_at :: "timestamptz option"
  dm_video_url :: "string option"
  dm_status :: "string option"

record db_sql_meeting_insert =
  di_id :: "uuid column_input"
  di_title :: "string column_input"
  di_created_at :: "timestamptz column_input"
  di_video_url :: "string column_input"
  di_status :: "string column_input"

definition db_sql_insert_meeting ::
  "timestamptz \<Rightarrow> db_sql_meeting_insert \<Rightarrow> db_sql_meeting list
     \<Rightarrow> db_error + db_sql_meeting list" where
  "db_sql_insert_meeting now ins tbl =
     bind_err (not_null ''id'' (resolve None (di_id ins))) (\<lambda>mid.
       if mid \<in> dm_id ` set tbl then Inl (UniqueViolation ''meetings_pkey'')
       else Inr (tbl @ [\<lparr> dm_id = mid,
                          dm_title = resolve None (di_title ins),
                          dm_created_at = resolve (Some now) (di_created_at ins),
                          dm_video_url = resolve None (di_video_url ins),
                          dm_status = resolve (Some ''processing'') (di_status ins) \<rparr>]))"

text \<open>The four other tables that reference \<open>meetings(id)\<close>.\<close>

record file_row =
  f_id :: int
  f_meeting_id :: uuid
  f_path :: string
  f_public_url :: "string option"
  f_kind :: string
  f_size_bytes :: "int option"
  f_mime_type :: "string option"
  f_created_at :: timestamptz

record utterance =
  u_id :: int
  u_meeting_id :: uuid
  u_speaker :: string
  u_start_seconds :: real
  u_end_seconds :: real
  u_text :: string
  u_created_at :: timestamptz

record summary =
  s_meeting_id :: uuid
  s_payload :: string
  s_created_at :: timestamptz
  s_updated_at :: timestamptz

record asr_job =
  j_id :: string
  j_meeting_id :: uuid
  j_provider :: string
  j_callback_url :: "string option"
  j_status :: string
  j_error :: "string option"
  j_raw :: "string option"
  j_created_at :: timestamptz
  j_updated_at :: timestamptz

record database =
  db_meetings :: "meeting list"
  db_files :: "file_row list"
  db_utterances :: "utterance list"
  db_chunks :: "chunk list"
  db_summaries :: "summary list"
  db_asr_jobs :: "asr_job list"

text \<open>
  The referential action of a foreign key when the referenced row is deleted. Each of
  the five referencing tables declares
  \<open>meeting_id UUID ... REFERENCES meetings(id) ON DELETE CASCADE\<close>.
\<close>

datatype fk_action = Cascade | NoAction

definition files_on_delete :: fk_action where
  "files_on_delete = Cascade"

definition utterances_on_delete :: fk_action where
  "utterances_on_delete = Cascade"

definition chunks_on_delete :: fk_action where
  "chunks_on_delete = Cascade"

definition summaries_on_delete :: fk_action where
  "summaries_on_delete = Cascade"

definition asr_jobs_on_delete :: fk_action where
  "asr_jobs_on_delete = Cascade"

text \<open>
  What deleting the meeting \<open>mid\<close> does to a referencing table: \<open>CASCADE\<close> deletes the
  referencing rows, \<open>NO ACTION\<close> (the default of a foreign key) refuses the delete while a
  row still references the meeting.
\<close>

fun on_delete :: "fk_action \<Rightarrow> string \<Rightarrow> ('r \<Rightarrow> uuid) \<Rightarrow> uuid \<Rightarrow> 'r list \<Rightarrow> db_error + 'r list" where
  "on_delete Cascade fk ref mid rows = Inr (filter (\<lambda>r. ref r \<noteq> mid) rows)"
| "on_delete NoAction fk ref mid rows =
     (if mid \<in> ref ` set rows then Inl (ForeignKeyViolation fk) else Inr rows)"

text \<open>
  \<open>DELETE FROM meetings WHERE id = mid\<close>, one statement: when no meeting has this id
  nothing is deleted; otherwise the row and, through the foreign keys, its dependents.
\<close>

definition delete_meeting :: "uuid \<Rightarrow> database \<Rightarrow> db_error + database" where
  "delete_meeting mid db =
     (if mid \<notin> m_id ` set (db_meetings db) then Inr db
      else
        bind_err (on_delete files_on_delete ''files_meeting_id_fkey'' f_meeting_id mid (db_files db)) (\<lambda>fs.
        bind_err (on_delete utterances_on_delete ''utterances_meeting_id_fkey'' u_meeting_id mid
                    (db_utterances db)) (\<lambda>us.
        bind_err (on_delete chunks_on_delete ''chunks_meeting_id_fkey'' c_meeting_id mid (db_chunks db)) (\<lambda>cs.
        bind_err (on_delete summaries_on_delete ''summaries_meeting_id_fkey'' s_meeting_id mid
                    (db_summaries db)) (\<lambda>ss.
        bind_err (on_delete asr_jobs_on_delete ''asr_jobs_meeting_id_fkey'' j_meeting_id mid
                    (db_asr_jobs db)) (\<lambda>js.
          Inr \<lparr> db_meetings = filter (\<lambda>r. m_id r \<noteq> mid) (db_meetings db),
                db_files = fs, db_utterances = us, db_chunks = cs, db_summaries = ss, db_asr_jobs = js \<rparr>))))))"

subsection \<open>JavaScript values\<close>

text \<open>
  The values the two clients handle. A number is a double: \<open>NaN\<close>, an infinity or a
  finite value. An object is the list of its own properties, each key once. Functions
  and symbols do not occur.
\<close>

datatype jsnum = NaN | Fin real | PosInfinity | NegInfinity

datatype js =
    Undefined
  | Null
  | Bool bool
  | Num jsnum
  | Str string
  | Arr "js list"
  | Obj "(string \<times> js) list"

datatype js_error = Error string | TypeError string | SyntaxError string

text \<open>\<open>ToBoolean\<close>: what \<open>||\<close>, \<open>?:\<close> and \<open>if\<close> test.\<close>

fun truthy :: "js \<Rightarrow> bool" where
  "truthy Undefined = False"
| "truthy Null = False"
| "truthy (Bool b) = b"
| "truthy (Num NaN) = False"
| "truthy (Num (Fin x)) = (x \<noteq> 0)"
| "truthy (Num PosInfinity) = True"
| "truthy (Num NegInfinity) = True"
| "truthy (Str s) = (s \<noteq> [])"
| "truthy (Arr xs) = True"
| "truthy (Obj ps) = True"

text \<open>\<open>a || b\<close>.\<close>

definition js_or :: "js \<Rightarrow> js \<Rightarrow> js" where
  "js_or a b = (if truthy a then a else b)"

text \<open>
  Reading the property \<open>key\<close> of a value that is neither \<open>undefined\<close> nor \<open>null\<close>. The
  keys read below (\<open>items\<close>, \<open>meeting_id\<close>, \<open>query\<close>, \<open>k\<close>, \<open>speaker\<close>, \<open>time_end\<close>,
  \<open>rerank\<close>) are no properties of the built-in prototypes, so a primitive or an array
  gives \<open>undefined\<close>.
\<close>

fun get_prop :: "js \<Rightarrow> string \<Rightarrow> js" where
  "get_prop (Obj ps) key = (case map_of ps key of None \<Rightarrow> Undefined | Some v \<Rightarrow> v)"
| "get_prop v key = Undefined"

text \<open>\<open>v?.key\<close>.\<close>

definition optional_chain :: "js \<Rightarrow> string \<Rightarrow> js" where
  "optional_chain v key = (if v = Undefined \<or> v = Null then Undefined else get_prop v key)"

text \<open>A destructured parameter with a default, \<open>{ k = 12 }\<close>: the default replaces \<open>undefined\<close> only.\<close>

definition with_default :: "js \<Rightarrow> js \<Rightarrow> js" where
  "with_default v d = (if v = Undefined then d else v)"

text \<open>
  \<open>JSON.stringify\<close> of an object (axios applies it to an object body) leaves out the
  properties whose value is \<open>undefined\<close>. \<open>json_has body key\<close>: the JSON text of \<open>body\<close>
  has the member \<open>key\<close>.
\<close>

fun json_has :: "js \<Rightarrow> string \<Rightarrow> bool" where
  "json_has (Obj ps) key = (case map_of ps key of None \<Rightarrow> False | Some v \<Rightarrow> v \<noteq> Undefined)"
| "json_has v key = False"

fun is_array :: "js \<Rightarrow> bool" where
  "is_array (Arr xs) = True"
| "is_array v = False"

subsection \<open>The axios client\<close>

text \<open>
  The outcome of an axios call is the rejection of its promise or a response, of which the
  client reads \<open>data\<close> only.
\<close>

record axios_response =
  r_status :: nat
  r_data :: js

text \<open>
  \<open>getUtterances = (meeting_id) => api.get("/utterances", { params: { meeting_id } })
  .then(r => r.data?.items || [])\<close>. \<open>api_get\<close> is the HTTP exchange.
\<close>

definition getUtterances ::
  "(string \<Rightarrow> js \<Rightarrow> js_error + axios_response) \<Rightarrow> js \<Rightarrow> js_error + js" where
  "getUtterances api_get meeting_id =
     (case api_get ''/utterances'' (Obj [(''params'', Obj [(''meeting_id'', meeting_id)])]) of
        Inl err \<Rightarrow> Inl err
      | Inr r \<Rightarrow> Inr (js_or (optional_chain (r_data r) ''items'') (Arr [])))"

text \<open>
  \<open>askChat = ({ meeting_id, query, k=12, speaker, time_end, rerank=true }) =>
  api.post("/chat", { meeting_id, query, k, filters: { speaker: speaker || null,
  time_start: null, time_end: time_end ? Number(time_end) : null }, rerank })
  .then(r => r.data)\<close>.
  Destructuring \<open>undefined\<close> or \<open>null\<close> throws a \<open>TypeError\<close>. \<open>to_number\<close> is the
  built-in \<open>Number\<close>, which always gives a number.
\<close>

definition askChat_body :: "(js \<Rightarrow> jsnum) \<Rightarrow> js \<Rightarrow> js" where
  "askChat_body to_number arg =
     (let meeting_id = get_prop arg ''meeting_id'';
          query = get_prop arg ''query'';
          k = with_default (get_prop arg ''k'') (Num (Fin 12));
          speaker = get_prop arg ''speaker'';
          time_end = get_prop arg ''time_end'';
          rerank = with_default (get_prop arg ''rerank'') (Bool True)
      in Obj [(''meeting_id'', meeting_id), (''query'', query), (''k'', k),
              (''filters'',
                 Obj [(''speaker'', js_or speaker Null),
                      (''time_start'', Null),
                      (''time_end'', if truthy time_end then Num (to_number time_end) else Null)]),
              (''rerank'', rerank)])"

definition askChat ::
  "(js \<Rightarrow> jsnum) \<Rightarrow> (string \<Rightarrow> js \<Rightarrow> js_error + axios_response) \<Rightarrow> js \<Rightarrow> js_error + js" where
  "askChat to_number api_post arg =
     (if arg = Undefined \<or> arg = Null then Inl (TypeError ''Cannot destructure'')
      else
        (case api_post ''/chat'' (askChat_body to_number arg) of
           Inl err \<Rightarrow> Inl err
         | Inr r \<Rightarrow> Inr (r_data r)))"

subsection \<open>The fetch client\<close>

text \<open>
  What \<open>request\<close> reads of a \<open>Response\<close>: \<open>ok\<close>, \<open>status\<close>, \<open>statusText\<close> and the
  outcome of \<open>res.json()\<close>, which is a value or a rejection (the body is not JSON, or
  cannot be read).
\<close>

record response =
  res_ok :: bool
  res_status :: nat
  res_statusText :: string
  res_json :: "js_error + js"

record fetch_options =
  opt_method :: string
  opt_headers :: "(string \<times> string) list"
  opt_body :: "js option"

text \<open>The decimal digits of a number, as a template literal prints \<open>res.status\<close>.\<close>

definition digit_char :: "nat \<Rightarrow> char" where
  "digit_char d = ''0123456789'' ! d"

fun show_nat :: "nat \<Rightarrow> string" where
  "show_nat n = (if n < 10 then [digit_char n] else show_nat (n div 10) @ [digit_char (n mod 10)])"

declare show_nat.simps [simp del]

text \<open>
  \<open>async function request(url, options = {}) {
     const res = await fetch(url, options);
     if (!res.ok) throw new Error(`${res.status} ${res.statusText}`);
     try { return await res.json(); } catch { return {}; } }\<close>.
  \<open>fetch\<close> is the HTTP exchange: it rejects (no response) or gives a response.
\<close>

definition request ::
  "(string \<Rightarrow> fetch_options \<Rightarrow> js_error + response) \<Rightarrow> string \<Rightarrow> fetch_options \<Rightarrow> js_error + js" where
  "request fetch url options =
     (case fetch url options of
        Inl err \<Rightarrow> Inl err
      | Inr res \<Rightarrow>
          if \<not> res_ok res then Inl (Error (show_nat (res_status res) @ '' '' @ res_statusText res))
          else (case res_json res of Inl err \<Rightarrow> Inr (Obj []) | Inr v \<Rightarrow> Inr v))"

text \<open>
  \<open>chat(meetingId, query)\<close> posts \<open>JSON.stringify({ meeting_id: meetingId, query })\<close> to
  \<open>ENDPOINTS.chat\<close>, that is \<open>`${API_BASE}/api/chat`\<close>. The body is kept as the object
  given to \<open>JSON.stringify\<close>.
\<close>

definition chat_body :: "js \<Rightarrow> js \<Rightarrow> js" where
  "chat_body meetingId query = Obj [(''meeting_id'', meetingId), (''query'', query)]"

definition chat_options :: "js \<Rightarrow> js \<Rightarrow> fetch_options" where
  "chat_options meetingId query =
     \<lparr> opt_method = ''POST'',
       opt_headers = [(''Content-Type'', ''application/json'')],
       opt_body = Some (chat_body meetingId query) \<rparr>"

definition chat ::
  "(string \<Rightarrow> fetch_options \<Rightarrow> js_error + response) \<Rightarrow> string \<Rightarrow> js \<Rightarrow> js \<Rightarrow> js_error + js" where
  "chat fetch API_BASE meetingId query =
     request fetch (API_BASE @ ''/api/chat'') (chat_options meetingId query)"

subsection \<open>Example data\<close>

text \<open>
  Two meeting ids (\<open>6f1c2d3e-4a5b-4c6d-8e7f-0123456789ab\<close> and
  \<open>9b2e4f60-7182-43a5-b6c7-d8e9f0a1b2c3\<close>), two unit vectors of dimension 3072 and four chunks: \<open>A\<close> and \<open>B\<close> of meeting \<open>M\<close>
  with embeddings, \<open>C\<close> of meeting \<open>M\<close> without one, \<open>D\<close> of another meeting. With
  \<open>vec_a\<close> as the query, \<open>A\<close> is at cosine distance 0 and \<open>B\<close> at distance 1.
\<close>

abbreviation meeting_M :: uuid where
  "meeting_M \<equiv> 0x6f1c2d3e4a5b4c6d8e7f0123456789ab"

abbreviation meeting_N :: uuid where
  "meeting_N \<equiv> 0x9b2e4f60718243a5b6c7d8e9f0a1b2c3"

definition vec_a :: vector where
  "vec_a = 1 # replicate 3071 0"

definition vec_b :: vector where
  "vec_b = 0 # 1 # replicate 3070 0"

definition chunk_A :: chunk where
  "chunk_A = \<lparr> c_id = 1, c_meeting_id = meeting_M, c_speaker = Some ''S1'', c_start_seconds = 0,
       c_end_seconds = 4, c_topic = None, c_text = ''budget'', c_embedding = Some vec_a,
       c_created_at = 0 \<rparr>"

definition chunk_B :: chunk where
  "chunk_B = \<lparr> c_id = 2, c_meeting_id = meeting_M, c_speaker = Some ''S2'', c_start_seconds = 4,
       c_end_seconds = 9, c_topic = None, c_text = ''hiring'', c_embedding = Some vec_b,
       c_created_at = 0 \<rparr>"

definition chunk_C :: chunk where
  "chunk_C = \<lparr> c_id = 3, c_meeting_id = meeting_M, c_speaker = None, c_start_seconds = 9,
       c_end_seconds = 12, c_topic = None, c_text = ''closing'', c_embedding = None,
       c_created_at = 0 \<rparr>"

definition chunk_D :: chunk where
  "chunk_D = \<lparr> c_id = 4, c_meeting_id = meeting_N, c_speaker = None, c_start_seconds = 0,
       c_end_seconds = 3, c_topic = None, c_text = ''other'', c_embedding = Some vec_a,
       c_created_at = 0 \<rparr>"

definition example_chunks :: "chunk list" where
  "example_chunks = [chunk_B, chunk_C, chunk_D, chunk_A]"

text \<open>A database with two meetings; every referencing table has a row of meeting \<open>M\<close>.\<close>

definition example_db :: database where
  "example_db =
     \<lparr> db_meetings =
         [\<lparr> m_id = meeting_M, m_title = ''Standup'', m_video_url = None, m_consent = True,
            m_status = ''indexed'', m_created_at = 0, m_updated_at = 0 \<rparr>,
          \<lparr> m_id = meeting_N, m_title = ''Review'', m_video_url = None, m_consent = True,
            m_status = ''uploaded'', m_created_at = 0, m_updated_at = 0 \<rparr>],
       db_files =
         [\<lparr> f_id = 1, f_meeting_id = meeting_M, f_path = ''m.mp4'', f_public_url = None,
            f_kind = ''upload'', f_size_bytes = None, f_mime_type = None, f_created_at = 0 \<rparr>],
       db_utterances =
         [\<lparr> u_id = 1, u_meeting_id = meeting_M, u_speaker = ''S1'', u_start_seconds = 0,
            u_end_seconds = 4, u_text = ''budget'', u_created_at = 0 \<rparr>,
          \<lparr> u_id = 2, u_meeting_id = meeting_N, u_speaker = ''S2'', u_start_seconds = 0,
            u_end_seconds = 3, u_text = ''other'', u_created_at = 0 \<rparr>],
       db_chunks = example_chunks,
       db_summaries =
         [\<lparr> s_meeting_id = meeting_M, s_payload = ''{}'', s_created_at = 0, s_updated_at = 0 \<rparr>],
       db_asr_jobs =
         [\<lparr> j_id = ''job-1'', j_meeting_id = meeting_M, j_provider = ''asr'', j_callback_url = None,
            j_status = ''completed'', j_error = None, j_raw = None, j_created_at = 0,
            j_updated_at = 0 \<rparr>] \<rparr>"

text \<open>
  The options of a call \<open>request(url)\<close> (the default \<open>{}\<close>: a \<open>GET\<close> without body), two
  responses of the fetch client, an argument of \<open>askChat\<close> and a response body of the chat
  endpoint.
\<close>

definition default_options :: fetch_options where
  "default_options = \<lparr> opt_method = ''GET'', opt_headers = [], opt_body = None \<rparr>"

definition not_found :: response where
  "not_found = \<lparr> res_ok = False, res_status = 404, res_statusText = ''Not Found'',
       res_json = Inl (SyntaxError ''Unexpected token'') \<rparr>"

definition ok_not_json :: response where
  "ok_not_json = \<lparr> res_ok = True, res_status = 200, res_statusText = ''OK'',
       res_json = Inl (SyntaxError ''Unexpected token'') \<rparr>"

definition chat_question :: js where
  "chat_question =
     Obj [(''meeting_id'', Str ''6f1c2d3e-4a5b-4c6d-8e7f-0123456789ab''),
          (''query'', Str ''What was decided?'')]"

definition chat_answer :: js where
  "chat_answer =
     Obj [(''answer'', Str ''Ship on Friday.''),
          (''citations'', Arr [Obj [(''start'', Num (Fin 4)), (''end'', Num (Fin 9)),
                                    (''text'', Str ''hiring'')]])]"

text \<open>Every stored status is one of the six values of the check constraint.\<close>

definition status_ok :: "meeting list \<Rightarrow> bool" where
  "status_ok tbl = list_all (\<lambda>r. m_status r \<in> set status_values) tbl"

text \<open>
  The pair the select list builds for a row of the scan when the two dimensions agree:
  the sort key and the returned row.
\<close>

definition returned_row :: "(vector \<Rightarrow> vector \<Rightarrow> 'd) \<Rightarrow> vector \<Rightarrow> chunk \<times> vector \<Rightarrow> 'd \<times> ('d::{linorder,minus,one}) match_row" where
  "returned_row cdist q ce =
     (cdist (snd ce) q,
      \<lparr> c_id = c_id (fst ce), c_meeting_id = c_meeting_id (fst ce), c_speaker = c_speaker (fst ce),
        c_start_seconds = c_start_seconds (fst ce), c_end_seconds = c_end_seconds (fst ce),
        c_topic = c_topic (fst ce), c_text = c_text (fst ce), c_embedding = Some (snd ce),
        c_created_at = c_created_at (fst ce), similarity = 1 - cdist (snd ce) q \<rparr>)"

section \<open>The retrieval function\<close>

subsection \<open>The scan and the select list\<close>

lemma scan_chunks_mem:
  "(c, e) \<in> set (scan_chunks m chunks) \<Longrightarrow> c \<in> set chunks \<and> c_meeting_id c = m \<and> c_embedding c = Some e"
  by (induction chunks) (auto split: option.splits if_splits)

lemma length_scan_chunks: "length (scan_chunks m chunks) = embedded_count m chunks"
  by (induction chunks) (auto simp: embedded_count_def split: option.splits)

lemma map_fst_scan_chunks:
  "map fst (scan_chunks m chunks) =
     filter (\<lambda>c. c_meeting_id c = m \<and> c_embedding c \<noteq> None) chunks"
  by (induction chunks) (auto split: option.splits)

lemma scan_chunks_empty: "scan_chunks m chunks = [] \<longleftrightarrow> embedded_count m chunks = 0"
  using length_scan_chunks [of m chunks] by auto

lemma scan_chunks_typed:
  "chunks_typed chunks \<Longrightarrow> (c, e) \<in> set (scan_chunks m chunks) \<Longrightarrow> length e = embedding_dim"
  by (induction chunks) (auto simp: chunks_typed_def split: option.splits if_splits)

lemma insert_chunk_typed:
  "chunks_typed chunks \<Longrightarrow> insert_chunk c chunks = Inr chunks' \<Longrightarrow> chunks_typed chunks'"
  by (auto simp: chunks_typed_def insert_chunk_def split: option.splits if_splits)

lemma select_row_same_length:
  "length (snd ce) = length q \<Longrightarrow> select_row cdist q ce = Inr (returned_row cdist q ce)"
  by (simp add: select_row_def cosine_op_def returned_row_def)

lemma select_row_other_length:
  "length (snd ce) \<noteq> length q \<Longrightarrow>
     select_row cdist q ce = Inl (DimensionMismatch (length (snd ce)) (length q))"
  by (simp add: select_row_def cosine_op_def)

lemma eval_rows_same_length:
  "\<forall>ce\<in>set ces. length (snd ce) = length q \<Longrightarrow>
     eval_rows cdist q ces = Inr (map (returned_row cdist q) ces)"
  by (induction ces) (simp_all add: select_row_same_length)

lemma eval_rows_other_length:
  "ces \<noteq> [] \<Longrightarrow> \<forall>ce\<in>set ces. length (snd ce) = n \<Longrightarrow> n \<noteq> length q \<Longrightarrow>
     eval_rows cdist q ces = Inl (DimensionMismatch n (length q))"
  by (cases ces) (simp_all add: select_row_other_length)

lemma eval_rows_Inr:
  "eval_rows cdist q ces = Inr rs \<Longrightarrow> rs = map (returned_row cdist q) ces"
proof (induction ces arbitrary: rs)
  case Nil
  then show ?case by simp
next
  case (Cons ce rest)
  then show ?case
    by (cases "length (snd ce) = length q")
      (auto simp: select_row_same_length select_row_other_length split: sum.splits)
qed

subsection \<open>Sorting and the limit\<close>

lemma set_take_sorted_rows:
  "set (take k (map snd (sort_key fst (map (returned_row cdist q) ces))))
     \<subseteq> snd ` returned_row cdist q ` set ces"
proof -
  have "set (take k (map snd (sort_key fst (map (returned_row cdist q) ces))))
          \<subseteq> set (map snd (sort_key fst (map (returned_row cdist q) ces)))"
    by (rule set_take_subset)
  then show ?thesis by auto
qed

lemma returned_embeddings:
  "\<forall>p\<in>set ps. \<exists>ce. p = returned_row cdist q ce \<Longrightarrow>
     \<exists>es. map c_embedding (map snd ps) = map Some es \<and> map (\<lambda>e. cdist e q) es = map fst ps"
proof (induction ps)
  case Nil
  then show ?case by simp
next
  case (Cons p ps)
  then obtain es where es: "map c_embedding (map snd ps) = map Some es"
    "map (\<lambda>e. cdist e q) es = map fst ps" by auto
  from Cons.prems obtain ce where "p = returned_row cdist q ce" by auto
  then have "map c_embedding (map snd (p # ps)) = map Some (snd ce # es)
      \<and> map (\<lambda>e. cdist e q) (snd ce # es) = map fst (p # ps)"
    using es by (simp add: returned_row_def)
  then show ?case by blast
qed

lemma take_map_snd_embeddings:
  fixes ces :: "(chunk \<times> vector) list"
  shows "\<exists>es. map c_embedding (take k (map snd (sort_key fst (map (returned_row cdist q) ces)))) = map Some es
     \<and> sorted (map (\<lambda>e. cdist e q) es)"
proof -
  let ?ps = "take k (sort_key fst (map (returned_row cdist q) ces))"
  have "\<forall>p\<in>set ?ps. \<exists>ce. p = returned_row cdist q ce"
  proof
    fix p assume "p \<in> set ?ps"
    then have "p \<in> set (sort_key fst (map (returned_row cdist q) ces))"
      by (rule in_set_takeD)
    then show "\<exists>ce. p = returned_row cdist q ce" by auto
  qed
  then obtain es where es: "map c_embedding (map snd ?ps) = map Some es"
    "map (\<lambda>e. cdist e q) es = map fst ?ps"
    using returned_embeddings by blast
  have "sorted (map fst (sort_key fst (map (returned_row cdist q) ces)))"
    by (rule sorted_sort_key)
  then have "sorted (map fst ?ps)"
    by (simp flip: take_map)
  with es show ?thesis by (auto simp: take_map)
qed

lemma match_chunks_typed_result:
  assumes "chunks_typed chunks" "length q = embedding_dim" "0 < K"
  shows "match_chunks cdist chunks q m K =
           Inr (take (nat K) (map snd (sort_key fst (map (returned_row cdist q) (scan_chunks m chunks)))))"
proof -
  have "\<forall>ce\<in>set (scan_chunks m chunks). length (snd ce) = length q"
    using assms(1,2) scan_chunks_typed by fastforce
  then have "eval_rows cdist q (scan_chunks m chunks) = Inr (map (returned_row cdist q) (scan_chunks m chunks))"
    by (rule eval_rows_same_length)
  with assms(3) show ?thesis by (simp add: match_chunks_def)
qed

lemma returned_row_from_chunk:
  assumes "r \<in> snd ` returned_row cdist q ` set (scan_chunks m chunks)"
  shows "\<exists>c\<in>set chunks. \<exists>e. c_embedding c = Some e
           \<and> similarity r = 1 - cdist e q
           \<and> c_id r = c_id c \<and> c_meeting_id r = c_meeting_id c \<and> c_speaker r = c_speaker c
           \<and> c_start_seconds r = c_start_seconds c \<and> c_end_seconds r = c_end_seconds c
           \<and> c_topic r = c_topic c \<and> c_text r = c_text c \<and> c_embedding r = c_embedding c
           \<and> c_created_at r = c_created_at c"
proof -
  from assms obtain c e where ce: "(c, e) \<in> set (scan_chunks m chunks)"
    and r: "r = snd (returned_row cdist q (c, e))" by auto
  from ce have c: "c \<in> set chunks" and e: "c_embedding c = Some e"
    using scan_chunks_mem by blast+
  from r e have "c_embedding c = Some e
           \<and> similarity r = 1 - cdist e q
           \<and> c_id r = c_id c \<and> c_meeting_id r = c_meeting_id c \<and> c_speaker r = c_speaker c
           \<and> c_start_seconds r = c_start_seconds c \<and> c_end_seconds r = c_end_seconds c
           \<and> c_topic r = c_topic c \<and> c_text r = c_text c \<and> c_embedding r = c_embedding c
           \<and> c_created_at r = c_created_at c"
    by (simp add: returned_row_def)
  then have "\<exists>e. c_embedding c = Some e
           \<and> similarity r = 1 - cdist e q
           \<and> c_id r = c_id c \<and> c_meeting_id r = c_meeting_id c \<and> c_speaker r = c_speaker c
           \<and> c_start_seconds r = c_start_seconds c \<and> c_end_seconds r = c_end_seconds c
           \<and> c_topic r = c_topic c \<and> c_text r = c_text c \<and> c_embedding r = c_embedding c
           \<and> c_created_at r = c_created_at c"
    by (rule exI)
  with c show ?thesis by (rule bexI [rotated])
qed

lemma returned_row_meeting:
  assumes "r \<in> snd ` returned_row cdist q ` set (scan_chunks m chunks)"
  shows "c_meeting_id r = m \<and> c_embedding r \<noteq> None"
proof -
  from assms obtain c e where ce: "(c, e) \<in> set (scan_chunks m chunks)"
    and r: "r = snd (returned_row cdist q (c, e))" by auto
  from ce have "c_meeting_id c = m" using scan_chunks_mem by blast
  with r show ?thesis by (simp add: returned_row_def)
qed

lemma match_chunks_Inr_rows:
  assumes "match_chunks cdist chunks q m K = Inr rows"
  shows "rows = [] \<or> rows = take (nat K) (map snd (sort_key fst (map (returned_row cdist q) (scan_chunks m chunks))))"
proof (cases "K \<le> 0")
  case True
  with assms show ?thesis by (auto simp: match_chunks_def split: if_splits)
next
  case False
  with assms obtain rs where rs: "eval_rows cdist q (scan_chunks m chunks) = Inr rs"
    and rows: "rows = take (nat K) (map snd (sort_key fst rs))"
    by (auto simp: match_chunks_def split: sum.splits)
  from rs have "rs = map (returned_row cdist q) (scan_chunks m chunks)" by (rule eval_rows_Inr)
  with rows show ?thesis by simp
qed

lemma match_chunks_rows_subset:
  assumes "match_chunks cdist chunks q m K = Inr rows"
  shows "set rows \<subseteq> snd ` returned_row cdist q ` set (scan_chunks m chunks)"
  using match_chunks_Inr_rows [OF assms] set_take_sorted_rows [of "nat K" cdist q "scan_chunks m chunks"]
  by auto

lemma match_chunks_length:
  assumes "chunks_typed chunks" and "length q = embedding_dim" and "0 \<le> K"
    and "match_chunks cdist chunks q m K = Inr rows"
  shows "int (length rows) = min K (int (embedded_count m chunks))"
proof (cases "K = 0")
  case True
  with assms(4) show ?thesis by (simp add: match_chunks_def)
next
  case False
  with assms(3) have K: "0 < K" by simp
  from assms(4) have "length rows = min (length (scan_chunks m chunks)) (nat K)"
    unfolding match_chunks_typed_result [OF assms(1,2) K] by auto
  with K show ?thesis unfolding length_scan_chunks by arith
qed

lemma match_chunks_sorted:
  assumes "match_chunks cdist chunks q m K = Inr rows"
  shows "\<exists>es. map c_embedding rows = map Some es \<and> sorted (map (\<lambda>e. cdist e q) es)"
proof -
  from match_chunks_Inr_rows [OF assms] show ?thesis
  proof
    assume "rows = []"
    then have "map c_embedding rows = map Some [] \<and> sorted (map (\<lambda>e. cdist e q) [])"
      by simp
    then show ?thesis by (rule exI)
  next
    assume "rows = take (nat K) (map snd (sort_key fst (map (returned_row cdist q) (scan_chunks m chunks))))"
    then show ?thesis by (simp only: take_map_snd_embeddings)
  qed
qed

lemma match_chunks_typed_returns:
  assumes "chunks_typed chunks" and "length q = embedding_dim" and "0 \<le> K"
  shows "\<exists>rows. match_chunks cdist chunks q m K = Inr rows"
proof (cases "K = 0")
  case True
  then show ?thesis by (simp add: match_chunks_def)
next
  case False
  with assms(3) have "0 < K" by simp
  with assms(1,2) show ?thesis by (simp add: match_chunks_typed_result)
qed




lemma match_chunks_mismatch:
  assumes typed: "chunks_typed chunks" and len: "length q \<noteq> embedding_dim" and K: "0 < K"
    and n: "0 < embedded_count m chunks"
  shows "match_chunks cdist chunks q m K = Inl (DimensionMismatch embedding_dim (length q))"
proof -
  from n have ne: "scan_chunks m chunks \<noteq> []" by (simp add: scan_chunks_empty)
  have "\<forall>ce\<in>set (scan_chunks m chunks). length (snd ce) = embedding_dim"
    using typed scan_chunks_typed by fastforce
  with ne have "eval_rows cdist q (scan_chunks m chunks) = Inl (DimensionMismatch embedding_dim (length q))"
    using len by (intro eval_rows_other_length) auto
  with K show ?thesis by (simp add: match_chunks_def)
qed

lemma match_chunks_no_mismatch_empty:
  assumes "embedded_count m chunks = 0 \<or> K = 0"
  shows "match_chunks cdist chunks q m K \<noteq> Inl (DimensionMismatch a b)"
  using assms by (auto simp: match_chunks_def scan_chunks_empty [symmetric])

lemma match_chunks_no_mismatch_typed:
  assumes "chunks_typed chunks" and "length q = embedding_dim"
  shows "match_chunks cdist chunks q m K \<noteq> Inl (DimensionMismatch a b)"
proof (cases "0 \<le> K")
  case True
  with assms obtain rows where "match_chunks cdist chunks q m K = Inr rows"
    using match_chunks_typed_returns by blast
  then show ?thesis by simp
next
  case False
  then show ?thesis by (simp add: match_chunks_def)
qed

subsection \<open>The example evaluated\<close>

lemma dot_zeros_left: "dot (replicate n 0) ys = 0"
proof (induction n arbitrary: ys)
  case 0
  then show ?case by simp
next
  case (Suc n)
  then show ?case by (cases ys) simp_all
qed

lemma dot_zeros_right: "dot xs (replicate n 0) = 0"
proof (induction n arbitrary: xs)
  case 0
  then show ?case by (cases xs) simp_all
next
  case (Suc n)
  then show ?case by (cases xs) simp_all
qed

lemma length_vec_a: "length vec_a = 3072"
  by (simp add: vec_a_def)

lemma length_vec_b: "length vec_b = 3072"
  by (simp add: vec_b_def)

lemma cosine_distance_a_a: "cosine_distance vec_a vec_a = 0"
  by (simp add: cosine_distance_def vec_a_def dot_zeros_left)

lemma cosine_distance_b_a: "cosine_distance vec_b vec_a = 1"
  by (simp add: cosine_distance_def vec_a_def vec_b_def dot_zeros_left dot_zeros_right)

lemma scan_example_chunks:
  "scan_chunks meeting_M example_chunks = [(chunk_B, vec_b), (chunk_A, vec_a)]"
  by (simp add: example_chunks_def chunk_A_def chunk_B_def chunk_C_def chunk_D_def)

lemma embedded_count_example: "embedded_count meeting_M example_chunks = 2"
  by (simp add: embedded_count_def example_chunks_def chunk_A_def chunk_B_def chunk_C_def
      chunk_D_def)

lemma embedded_count_no_embedding: "embedded_count meeting_M [chunk_C, chunk_D] = 0"
  by (simp add: embedded_count_def chunk_C_def chunk_D_def)

lemma example_chunks_typed: "chunks_typed example_chunks"
  by (simp add: chunks_typed_def example_chunks_def chunk_A_def chunk_B_def chunk_C_def
      chunk_D_def length_vec_a length_vec_b embedding_dim_def)

text \<open>
  The example of the specification: of the chunks \<open>A\<close>, \<open>B\<close> and \<open>C\<close> (no embedding) of
  meeting \<open>M\<close>, a call with count 5 returns \<open>A\<close> and \<open>B\<close>, nearest first.
\<close>

lemma match_chunks_example:
  "match_chunks cosine_distance example_chunks vec_a meeting_M 5 =
     Inr [chunk.extend chunk_A (match_row.fields 1), chunk.extend chunk_B (match_row.fields 0)]"
  by (simp add: match_chunks_def scan_example_chunks select_row_def cosine_op_def
      length_vec_a length_vec_b cosine_distance_a_a cosine_distance_b_a
      chunk_A_def chunk_B_def chunk.defs match_row.defs)

subsection \<open>Claims about \<open>match_chunks\<close>\<close>

text \<open>
  Claim C1, as it is written, quantifies over every query vector and every count. It
  fails on a query vector of another dimension than the stored embeddings (the distance
  operator raises) and on a negative count (\<open>LIMIT\<close> raises).
\<close>

theorem match_chunks_total_counterexample:
  "embedded_count meeting_M example_chunks = 2
   \<and> match_chunks cosine_distance example_chunks [1, 0] meeting_M 5
       = Inl (DimensionMismatch 3072 2)
   \<and> match_chunks cosine_distance example_chunks vec_a meeting_M (- 1) = Inl NegativeLimit"
  by (simp add: embedded_count_example match_chunks_def scan_example_chunks select_row_def
      cosine_op_def length_vec_b)

text \<open>
  Claim C1, amended: for every query vector \<open>q\<close> of the declared dimension 3072, every
  meeting id \<open>m\<close> and every count \<open>K \<ge> 0\<close>, over a table whose stored embeddings have the
  declared dimension, \<open>match_chunks\<close> returns exactly \<open>min K N\<close> rows, \<open>N\<close> being the
  number of rows of \<open>chunks\<close> that belong to \<open>m\<close> and have a non-null embedding; every
  returned row belongs to \<open>m\<close> and has a non-null embedding, and the rows are in
  non-decreasing order of the distance between their embedding and \<open>q\<close>. A call without
  the count is the call with count 5.
\<close>

theorem match_chunks_top_k:
  assumes "chunks_typed chunks" and "length q = embedding_dim" and "0 \<le> K"
  shows "\<exists>rows. match_chunks cdist chunks q m K = Inr rows
           \<and> int (length rows)
               = min K (int (length (filter (\<lambda>c. c_meeting_id c = m \<and> c_embedding c \<noteq> None) chunks)))
           \<and> int (length rows) = min K (int (embedded_count m chunks))
           \<and> (\<forall>r\<in>set rows. c_meeting_id r = m \<and> c_embedding r \<noteq> None)
           \<and> (\<exists>es. map c_embedding rows = map Some es \<and> sorted (map (\<lambda>e. cdist e q) es))
           \<and> (K = 5 \<longrightarrow> match_chunks_default cdist chunks q m = Inr rows)"
proof -
  from assms obtain rows where rows: "match_chunks cdist chunks q m K = Inr rows"
    using match_chunks_typed_returns by blast
  have len: "int (length rows) = min K (int (embedded_count m chunks))"
    using assms rows by (rule match_chunks_length)
  then have len': "int (length rows)
      = min K (int (length (filter (\<lambda>c. c_meeting_id c = m \<and> c_embedding c \<noteq> None) chunks)))"
    by (simp only: embedded_count_def)
  have mem: "\<forall>r\<in>set rows. c_meeting_id r = m \<and> c_embedding r \<noteq> None"
  proof
    fix r assume "r \<in> set rows"
    then have "r \<in> snd ` returned_row cdist q ` set (scan_chunks m chunks)"
      using match_chunks_rows_subset [OF rows] by blast
    then show "c_meeting_id r = m \<and> c_embedding r \<noteq> None"
      by (rule returned_row_meeting)
  qed
  have srt: "\<exists>es. map c_embedding rows = map Some es \<and> sorted (map (\<lambda>e. cdist e q) es)"
    using rows by (rule match_chunks_sorted)
  have dflt: "K = 5 \<longrightarrow> match_chunks_default cdist chunks q m = Inr rows"
    using rows by (auto simp: match_chunks_default_def)
  from rows len' len mem srt dflt show ?thesis by blast
qed

theorem match_chunks_top_k_witness:
  "chunks_typed example_chunks \<and> length vec_a = embedding_dim \<and> (0 :: int) \<le> 5
   \<and> length (filter (\<lambda>c. c_meeting_id c = meeting_M \<and> c_embedding c \<noteq> None) example_chunks) = 2
   \<and> (\<exists>rows. match_chunks cosine_distance example_chunks vec_a meeting_M 5 = Inr rows
         \<and> length rows = 2
         \<and> (\<forall>r\<in>set rows. c_meeting_id r = meeting_M \<and> c_embedding r \<noteq> None)
         \<and> (\<exists>es. map c_embedding rows = map Some es
               \<and> sorted (map (\<lambda>e. cosine_distance e vec_a) es))
         \<and> match_chunks_default cosine_distance example_chunks vec_a meeting_M = Inr rows)"
proof -
  have len: "length vec_a = embedding_dim" by (simp add: length_vec_a embedding_dim_def)
  have K: "(0 :: int) \<le> 5" by simp
  have n: "length (filter (\<lambda>c. c_meeting_id c = meeting_M \<and> c_embedding c \<noteq> None) example_chunks) = 2"
    using embedded_count_example by (simp only: embedded_count_def)
  from match_chunks_top_k [OF example_chunks_typed len K, of cosine_distance meeting_M]
  obtain rows where rows: "match_chunks cosine_distance example_chunks vec_a meeting_M 5 = Inr rows"
    and l: "int (length rows)
      = min 5 (int (length (filter (\<lambda>c. c_meeting_id c = meeting_M \<and> c_embedding c \<noteq> None) example_chunks)))"
    and mem: "\<forall>r\<in>set rows. c_meeting_id r = meeting_M \<and> c_embedding r \<noteq> None"
    and srt: "\<exists>es. map c_embedding rows = map Some es
               \<and> sorted (map (\<lambda>e. cosine_distance e vec_a) es)"
    and dflt: "match_chunks_default cosine_distance example_chunks vec_a meeting_M = Inr rows"
    by blast
  from l have l2: "length rows = 2" unfolding n by simp
  from rows l2 mem srt dflt
  have "match_chunks cosine_distance example_chunks vec_a meeting_M 5 = Inr rows
         \<and> length rows = 2
         \<and> (\<forall>r\<in>set rows. c_meeting_id r = meeting_M \<and> c_embedding r \<noteq> None)
         \<and> (\<exists>es. map c_embedding rows = map Some es
               \<and> sorted (map (\<lambda>e. cosine_distance e vec_a) es))
         \<and> match_chunks_default cosine_distance example_chunks vec_a meeting_M = Inr rows"
    by (intro conjI)
  then have "\<exists>rows. match_chunks cosine_distance example_chunks vec_a meeting_M 5 = Inr rows
         \<and> length rows = 2
         \<and> (\<forall>r\<in>set rows. c_meeting_id r = meeting_M \<and> c_embedding r \<noteq> None)
         \<and> (\<exists>es. map c_embedding rows = map Some es
               \<and> sorted (map (\<lambda>e. cosine_distance e vec_a) es))
         \<and> match_chunks_default cosine_distance example_chunks vec_a meeting_M = Inr rows"
    by (rule exI)
  with example_chunks_typed len K n show ?thesis by (intro conjI)
qed

text \<open>
  Claim C2: every row \<open>match_chunks\<close> returns is a row of \<open>chunks\<close> with its nine columns
  (\<open>id\<close>, \<open>meeting_id\<close>, \<open>speaker\<close>, \<open>start_seconds\<close>, \<open>end_seconds\<close>, \<open>topic\<close>, \<open>text\<close>,
  \<open>embedding\<close>, \<open>created_at\<close>) unchanged, and its \<open>similarity\<close> is 1 minus the distance
  between that chunk's embedding and the query embedding.
\<close>

theorem match_chunks_row_contents:
  assumes "match_chunks cdist chunks q m K = Inr rows" and "r \<in> set rows"
  shows "\<exists>c\<in>set chunks. \<exists>e. c_embedding c = Some e
           \<and> similarity r = 1 - cdist e q
           \<and> c_id r = c_id c \<and> c_meeting_id r = c_meeting_id c \<and> c_speaker r = c_speaker c
           \<and> c_start_seconds r = c_start_seconds c \<and> c_end_seconds r = c_end_seconds c
           \<and> c_topic r = c_topic c \<and> c_text r = c_text c \<and> c_embedding r = c_embedding c
           \<and> c_created_at r = c_created_at c"
proof -
  from assms(1) have "set rows \<subseteq> snd ` returned_row cdist q ` set (scan_chunks m chunks)"
    by (rule match_chunks_rows_subset)
  then have "r \<in> snd ` returned_row cdist q ` set (scan_chunks m chunks)"
    using assms(2) by (rule subsetD)
  then show ?thesis by (rule returned_row_from_chunk)
qed

theorem match_chunks_row_contents_witness:
  "match_chunks cosine_distance example_chunks vec_a meeting_M 5 =
     Inr [chunk.extend chunk_A (match_row.fields 1), chunk.extend chunk_B (match_row.fields 0)]
   \<and> (\<exists>c\<in>set example_chunks. \<exists>e. c_embedding c = Some e
         \<and> similarity (chunk.extend chunk_B (match_row.fields (0 :: real))) = 1 - cosine_distance e vec_a
         \<and> c_id (chunk.extend chunk_B (match_row.fields (0 :: real))) = c_id c)"
proof -
  have mem: "chunk.extend chunk_B (match_row.fields (0 :: real))
      \<in> set [chunk.extend chunk_A (match_row.fields 1), chunk.extend chunk_B (match_row.fields 0)]"
    by simp
  from match_chunks_row_contents [OF match_chunks_example mem]
  obtain c e where "c \<in> set example_chunks" "c_embedding c = Some e"
    "similarity (chunk.extend chunk_B (match_row.fields (0 :: real))) = 1 - cosine_distance e vec_a"
    "c_id (chunk.extend chunk_B (match_row.fields (0 :: real))) = c_id c"
    by blast
  then have "\<exists>c\<in>set example_chunks. \<exists>e. c_embedding c = Some e
         \<and> similarity (chunk.extend chunk_B (match_row.fields (0 :: real))) = 1 - cosine_distance e vec_a
         \<and> c_id (chunk.extend chunk_B (match_row.fields (0 :: real))) = c_id c"
    by blast
  with match_chunks_example show ?thesis by (rule conjI)
qed




text \<open>
  When the dimension error is raised and when it is not: for a query vector of another
  length than 3072 it is raised exactly when the count is positive and the meeting has a
  chunk with an embedding (the table being typed); for a query vector of length 3072 it
  is never raised.
\<close>

lemma match_chunks_dimension_error:
  "(chunks_typed chunks \<longrightarrow> length q \<noteq> embedding_dim \<longrightarrow> 0 < K \<longrightarrow> 0 < embedded_count m chunks
        \<longrightarrow> match_chunks cdist chunks q m K = Inl (DimensionMismatch embedding_dim (length q)))
   \<and> (embedded_count m chunks = 0 \<or> K = 0
        \<longrightarrow> (\<forall>a b. match_chunks cdist chunks q m K \<noteq> Inl (DimensionMismatch a b)))
   \<and> (chunks_typed chunks \<longrightarrow> length q = embedding_dim
        \<longrightarrow> (\<forall>a b. match_chunks cdist chunks q m K \<noteq> Inl (DimensionMismatch a b)))"
proof (intro conjI impI allI)
  assume "chunks_typed chunks" and "length q \<noteq> embedding_dim" and "0 < K"
    and "0 < embedded_count m chunks"
  then show "match_chunks cdist chunks q m K = Inl (DimensionMismatch embedding_dim (length q))"
    by (rule match_chunks_mismatch)
next
  fix a b
  assume "embedded_count m chunks = 0 \<or> K = 0"
  then show "match_chunks cdist chunks q m K \<noteq> Inl (DimensionMismatch a b)"
    by (rule match_chunks_no_mismatch_empty)
next
  fix a b
  assume "chunks_typed chunks" and "length q = embedding_dim"
  then show "match_chunks cdist chunks q m K \<noteq> Inl (DimensionMismatch a b)"
    by (rule match_chunks_no_mismatch_typed)
qed

text \<open>
  Claim C4: the embedding dimension is 3072 end to end, and \<open>match_chunks\<close> fails fast
  with a dimension mismatch on every query vector of another length. The column does
  refuse such a vector when a row is stored, and the signature of \<open>match_chunks\<close> declares
  \<open>query_embedding vector(3072)\<close>; but the declared length is not checked when the function
  is called. A query vector of length 1 is accepted: for a meeting without an embedded
  chunk, and for any meeting when the count is 0, the call returns the empty result and
  raises nothing. The mismatch is noticed only where the distance operator meets a stored
  embedding.
\<close>

theorem match_chunks_mismatch_undetected:
  "length [1 :: real] \<noteq> embedding_dim
   \<and> embedded_count meeting_M [chunk_C, chunk_D] = 0
   \<and> match_chunks cosine_distance [chunk_C, chunk_D] [1] meeting_M 5 = Inr []
   \<and> embedded_count meeting_M example_chunks = 2
   \<and> match_chunks cosine_distance example_chunks [1] meeting_M 0 = Inr []
   \<and> match_chunks cosine_distance example_chunks [1] meeting_M 5 = Inl (DimensionMismatch 3072 1)
   \<and> insert_chunk (chunk_C \<lparr> c_embedding := Some [1] \<rparr>) [] = Inl (ExpectedDimensions 3072 1)"
proof (intro conjI)
  show "length [1 :: real] \<noteq> embedding_dim" by (simp add: embedding_dim_def)
  show "embedded_count meeting_M [chunk_C, chunk_D] = 0" by (rule embedded_count_no_embedding)
  show "match_chunks cosine_distance [chunk_C, chunk_D] [1] meeting_M 5 = Inr []"
    by (simp add: match_chunks_def chunk_C_def chunk_D_def)
  show "embedded_count meeting_M example_chunks = 2" by (rule embedded_count_example)
  show "match_chunks cosine_distance example_chunks [1] meeting_M 0 = Inr []"
    by (simp add: match_chunks_def)
  show "match_chunks cosine_distance example_chunks [1] meeting_M 5 = Inl (DimensionMismatch 3072 1)"
    by (simp add: match_chunks_def scan_example_chunks select_row_def cosine_op_def length_vec_b)
  show "insert_chunk (chunk_C \<lparr> c_embedding := Some [1] \<rparr>) [] = Inl (ExpectedDimensions 3072 1)"
    by (simp add: insert_chunk_def embedding_dim_def)
qed

section \<open>The schema\<close>

subsection \<open>The status of a meeting\<close>

text \<open>
  Under the setup script every stored status is one of the six values: the column default
  is \<open>'uploaded'\<close> and every insert and update passes \<open>meetings_status_check\<close>.
\<close>

lemma bind_err_Inr:
  "bind_err r f = Inr y \<longleftrightarrow> (\<exists>x. r = Inr x \<and> f x = Inr y)"
  by (cases r) (simp_all add: bind_err_def)

lemma not_null_Inr: "not_null col v = Inr x \<longleftrightarrow> v = Some x"
  by (cases v) (simp_all add: not_null_def)

lemma meetings_status_check_Inr:
  "meetings_status_check s = Inr s' \<longleftrightarrow> s' = s \<and> s \<in> set status_values"
  by (auto simp: meetings_status_check_def)

lemma insert_meeting_status_ok:
  assumes "status_ok tbl" and "insert_meeting fresh now ins tbl = Inr tbl'"
  shows "status_ok tbl'"
proof -
  from assms(2) obtain r where tbl': "tbl' = tbl @ [r]" and r: "m_status r \<in> set status_values"
    by (auto simp: insert_meeting_def bind_err_Inr not_null_Inr meetings_status_check_Inr
        split: if_splits)
  with assms(1) show ?thesis by (simp add: status_ok_def)
qed

lemma update_meeting_status_ok:
  assumes "status_ok tbl" and "update_meeting_status now mid v tbl = Inr tbl'"
  shows "status_ok tbl'"
proof (cases "mid \<in> m_id ` set tbl")
  case False
  with assms show ?thesis by (simp add: update_meeting_status_def)
next
  case True
  with assms(2) obtain s where s: "s \<in> set status_values"
    and tbl': "tbl' = map (\<lambda>r. if m_id r = mid then r\<lparr> m_status := s, m_updated_at := now \<rparr> else r) tbl"
    by (auto simp: update_meeting_status_def bind_err_Inr not_null_Inr meetings_status_check_Inr)
  with assms(1) show ?thesis by (auto simp: status_ok_def list_all_iff)
qed

lemma reachable_meetings_status_ok: "reachable_meetings tbl \<Longrightarrow> status_ok tbl"
proof (induction rule: reachable_meetings.induct)
  case empty_table
  then show ?case by (simp add: status_ok_def)
next
  case (inserted tbl fresh now ins tbl')
  then show ?case using insert_meeting_status_ok by blast
next
  case (updated tbl now mid v tbl')
  then show ?case using update_meeting_status_ok by blast
next
  case (deleted tbl mid)
  then show ?case by (simp add: status_ok_def list_all_iff)
qed

lemma insert_meeting_default_status:
  "insert_meeting meeting_M 0
      \<lparr> i_id = Default, i_title = Given (Some ''Standup''), i_video_url = Default,
        i_consent = Default, i_status = Default, i_created_at = Default, i_updated_at = Default \<rparr> []
     = Inr [\<lparr> m_id = meeting_M, m_title = ''Standup'', m_video_url = None, m_consent = False,
              m_status = ''uploaded'', m_created_at = 0, m_updated_at = 0 \<rparr>]"
  by (simp add: insert_meeting_def bind_err_def not_null_def meetings_status_check_def
      status_values_def)

lemma insert_meeting_bad_status:
  "insert_meeting meeting_M 0
      \<lparr> i_id = Default, i_title = Given (Some ''Standup''), i_video_url = Default,
        i_consent = Default, i_status = Given (Some ''processing''), i_created_at = Default,
        i_updated_at = Default \<rparr> []
     = Inl (CheckViolation ''meetings_status_check'')"
  by (simp add: insert_meeting_def bind_err_def not_null_def meetings_status_check_def
      status_values_def)

text \<open>
  Claim C5: in every reachable state the status of a meeting is one of \<open>uploaded\<close>,
  \<open>asr_started\<close>, \<open>asr_done\<close>, \<open>indexed\<close>, \<open>summarized\<close>, \<open>error\<close>, inserts that rely on the
  column default included. The setup script keeps this invariant
  (\<open>reachable_meetings_status_ok\<close>). The table \<open>meetings\<close> of \<open>schemas/db.sql\<close> does not:
  it has no check constraint, and once its \<open>CREATE TABLE\<close> has run,
  \<open>INSERT INTO meetings (id) VALUES ('6f1c2d3e-4a5b-4c6d-8e7f-0123456789ab')\<close>, which
  leaves \<open>status\<close> out, stores the default \<open>'processing'\<close>, none of the six values.
\<close>

theorem db_sql_default_status:
  "db_sql_insert_meeting 0
      \<lparr> di_id = Given (Some meeting_M), di_title = Default, di_created_at = Default,
        di_video_url = Default, di_status = Default \<rparr> []
     = Inr [\<lparr> dm_id = meeting_M, dm_title = None, dm_created_at = Some 0, dm_video_url = None,
              dm_status = Some ''processing'' \<rparr>]
   \<and> ''processing'' \<notin> set status_values"
  by (simp add: db_sql_insert_meeting_def bind_err_def not_null_def status_values_def)

subsection \<open>Deleting a meeting\<close>

lemma delete_meeting_result:
  assumes "mid \<in> m_id ` set (db_meetings db)"
  shows "delete_meeting mid db =
     Inr \<lparr> db_meetings = filter (\<lambda>r. m_id r \<noteq> mid) (db_meetings db),
           db_files = filter (\<lambda>r. f_meeting_id r \<noteq> mid) (db_files db),
           db_utterances = filter (\<lambda>r. u_meeting_id r \<noteq> mid) (db_utterances db),
           db_chunks = filter (\<lambda>r. c_meeting_id r \<noteq> mid) (db_chunks db),
           db_summaries = filter (\<lambda>r. s_meeting_id r \<noteq> mid) (db_summaries db),
           db_asr_jobs = filter (\<lambda>r. j_meeting_id r \<noteq> mid) (db_asr_jobs db) \<rparr>"
  using assms
  by (simp add: delete_meeting_def bind_err_def files_on_delete_def utterances_on_delete_def
      chunks_on_delete_def summaries_on_delete_def asr_jobs_on_delete_def)

lemma no_action_refuses:
  "mid \<in> ref ` set rows \<Longrightarrow> on_delete NoAction fk ref mid rows = Inl (ForeignKeyViolation fk)"
  by simp

text \<open>
  Claim C6: deleting a meeting \<open>M\<close> removes in the same statement every row of \<open>files\<close>,
  \<open>utterances\<close>, \<open>chunks\<close>, \<open>summaries\<close> and \<open>asr_jobs\<close> whose foreign key references \<open>M\<close>:
  the delete succeeds, afterwards neither \<open>M\<close> nor any row referencing it is left, and the
  rows of the other meetings are untouched.
\<close>

theorem delete_meeting_cascades:
  assumes "mid \<in> m_id ` set (db_meetings db)"
  shows "\<exists>db'. delete_meeting mid db = Inr db'
     \<and> mid \<notin> m_id ` set (db_meetings db')
     \<and> mid \<notin> f_meeting_id ` set (db_files db')
     \<and> mid \<notin> u_meeting_id ` set (db_utterances db')
     \<and> mid \<notin> c_meeting_id ` set (db_chunks db')
     \<and> mid \<notin> s_meeting_id ` set (db_summaries db')
     \<and> mid \<notin> j_meeting_id ` set (db_asr_jobs db')
     \<and> db_meetings db' = filter (\<lambda>r. m_id r \<noteq> mid) (db_meetings db)
     \<and> db_files db' = filter (\<lambda>r. f_meeting_id r \<noteq> mid) (db_files db)
     \<and> db_utterances db' = filter (\<lambda>r. u_meeting_id r \<noteq> mid) (db_utterances db)
     \<and> db_chunks db' = filter (\<lambda>r. c_meeting_id r \<noteq> mid) (db_chunks db)
     \<and> db_summaries db' = filter (\<lambda>r. s_meeting_id r \<noteq> mid) (db_summaries db)
     \<and> db_asr_jobs db' = filter (\<lambda>r. j_meeting_id r \<noteq> mid) (db_asr_jobs db)"
  unfolding delete_meeting_result [OF assms] by auto

theorem delete_meeting_cascades_witness:
  "meeting_M \<in> m_id ` set (db_meetings example_db)
   \<and> (\<exists>db'. delete_meeting meeting_M example_db = Inr db'
        \<and> meeting_M \<notin> m_id ` set (db_meetings db')
        \<and> meeting_M \<notin> f_meeting_id ` set (db_files db')
        \<and> meeting_M \<notin> u_meeting_id ` set (db_utterances db')
        \<and> meeting_M \<notin> c_meeting_id ` set (db_chunks db')
        \<and> meeting_M \<notin> s_meeting_id ` set (db_summaries db')
        \<and> meeting_M \<notin> j_meeting_id ` set (db_asr_jobs db')
        \<and> map c_id (db_chunks db') = [4]
        \<and> map u_id (db_utterances db') = [2])"
proof -
  have h: "meeting_M \<in> m_id ` set (db_meetings example_db)"
    by (simp add: example_db_def)
  from delete_meeting_cascades [OF h] obtain db' where db': "delete_meeting meeting_M example_db = Inr db'"
    and 1: "meeting_M \<notin> m_id ` set (db_meetings db')"
    and 2: "meeting_M \<notin> f_meeting_id ` set (db_files db')"
    and 3: "meeting_M \<notin> u_meeting_id ` set (db_utterances db')"
    and 4: "meeting_M \<notin> c_meeting_id ` set (db_chunks db')"
    and 5: "meeting_M \<notin> s_meeting_id ` set (db_summaries db')"
    and 6: "meeting_M \<notin> j_meeting_id ` set (db_asr_jobs db')"
    and c: "db_chunks db' = filter (\<lambda>r. c_meeting_id r \<noteq> meeting_M) (db_chunks example_db)"
    and u: "db_utterances db' = filter (\<lambda>r. u_meeting_id r \<noteq> meeting_M) (db_utterances example_db)"
    by blast
  from c have 7: "map c_id (db_chunks db') = [4]"
    by (simp add: example_db_def example_chunks_def chunk_A_def chunk_B_def chunk_C_def chunk_D_def)
  from u have 8: "map u_id (db_utterances db') = [2]"
    by (simp add: example_db_def)
  from db' 1 2 3 4 5 6 7 8 have "delete_meeting meeting_M example_db = Inr db'
        \<and> meeting_M \<notin> m_id ` set (db_meetings db')
        \<and> meeting_M \<notin> f_meeting_id ` set (db_files db')
        \<and> meeting_M \<notin> u_meeting_id ` set (db_utterances db')
        \<and> meeting_M \<notin> c_meeting_id ` set (db_chunks db')
        \<and> meeting_M \<notin> s_meeting_id ` set (db_summaries db')
        \<and> meeting_M \<notin> j_meeting_id ` set (db_asr_jobs db')
        \<and> map c_id (db_chunks db') = [4]
        \<and> map u_id (db_utterances db') = [2]"
    by (intro conjI)
  then have "\<exists>db'. delete_meeting meeting_M example_db = Inr db'
        \<and> meeting_M \<notin> m_id ` set (db_meetings db')
        \<and> meeting_M \<notin> f_meeting_id ` set (db_files db')
        \<and> meeting_M \<notin> u_meeting_id ` set (db_utterances db')
        \<and> meeting_M \<notin> c_meeting_id ` set (db_chunks db')
        \<and> meeting_M \<notin> s_meeting_id ` set (db_summaries db')
        \<and> meeting_M \<notin> j_meeting_id ` set (db_asr_jobs db')
        \<and> map c_id (db_chunks db') = [4]
        \<and> map u_id (db_utterances db') = [2]"
    by (rule exI)
  with h show ?thesis by (rule conjI)
qed

section \<open>The clients\<close>

subsection \<open>Truthiness and defaults\<close>

lemma truthy_defined: "truthy v \<Longrightarrow> v \<noteq> Undefined \<and> v \<noteq> Null"
  by (cases v) simp_all

lemma js_or_defined: "d \<noteq> Undefined \<Longrightarrow> d \<noteq> Null \<Longrightarrow> js_or v d \<noteq> Undefined \<and> js_or v d \<noteq> Null"
  using truthy_defined by (simp add: js_or_def)

lemma with_default_defined: "d \<noteq> Undefined \<Longrightarrow> with_default v d \<noteq> Undefined"
  by (simp add: with_default_def)

lemma show_nat_404: "show_nat 404 = ''404''"
  by (simp add: show_nat.simps digit_char_def)

subsection \<open>The chat request\<close>

lemma askChat_body_filters:
  "get_prop (askChat_body to_number arg) ''filters'' =
     Obj [(''speaker'', js_or (get_prop arg ''speaker'') Null),
          (''time_start'', Null),
          (''time_end'', if truthy (get_prop arg ''time_end'')
                         then Num (to_number (get_prop arg ''time_end'')) else Null)]"
  by (simp add: askChat_body_def Let_def)

lemma askChat_body_keys:
  "json_has (askChat_body to_number arg) ''k''
   \<and> json_has (askChat_body to_number arg) ''filters''
   \<and> json_has (askChat_body to_number arg) ''rerank''"
  by (simp add: askChat_body_def Let_def with_default_def)

lemma askChat_body_filter_keys:
  "json_has (get_prop (askChat_body to_number arg) ''filters'') ''speaker''
   \<and> json_has (get_prop (askChat_body to_number arg) ''filters'') ''time_start''
   \<and> json_has (get_prop (askChat_body to_number arg) ''filters'') ''time_end''"
  using truthy_defined [of "get_prop arg ''speaker''"]
  by (auto simp: askChat_body_filters js_or_def)

lemma askChat_body_supplied:
  "(json_has (askChat_body to_number arg) ''meeting_id'' \<longleftrightarrow> get_prop arg ''meeting_id'' \<noteq> Undefined)
   \<and> (json_has (askChat_body to_number arg) ''query'' \<longleftrightarrow> get_prop arg ''query'' \<noteq> Undefined)"
  by (simp add: askChat_body_def Let_def)

lemma askChat_passes_data:
  assumes "arg \<noteq> Undefined" and "arg \<noteq> Null"
    and "api_post ''/chat'' (askChat_body to_number arg) = Inr r"
  shows "askChat to_number api_post arg = Inr (r_data r)"
  using assms by (simp add: askChat_def)

lemma chat_passes_json:
  assumes "fetch (API_BASE @ ''/api/chat'') (chat_options meetingId query) = Inr res"
    and "res_ok res" and "res_json res = Inr v"
  shows "chat fetch API_BASE meetingId query = Inr v"
  using assms by (simp add: chat_def request_def)

text \<open>
  Claim C7, as it is written, is about every chat request of the dashboard clients. The
  fetch client's \<open>chat\<close> posts \<open>meeting_id\<close> and \<open>query\<close> only: its body has no \<open>k\<close>, no
  \<open>filters\<close> and no \<open>rerank\<close>.
\<close>

theorem chat_request_counterexample:
  "\<not> json_has (chat_body (Str ''M'') (Str ''What was decided?'')) ''k''
   \<and> \<not> json_has (chat_body (Str ''M'') (Str ''What was decided?'')) ''filters''
   \<and> \<not> json_has (chat_body (Str ''M'') (Str ''What was decided?'')) ''rerank''"
  by (simp add: chat_body_def)

text \<open>
  Claim C7, amended: \<open>askChat\<close> posts to \<open>/chat\<close> the body
  \<open>{ meeting_id, query, k, filters: { speaker, time_start, time_end }, rerank }\<close>, where
  \<open>k\<close> is 12 and \<open>rerank\<close> is \<open>true\<close> when the caller gives none, \<open>speaker\<close> is the
  caller's or \<open>null\<close>, \<open>time_start\<close> is \<open>null\<close> and \<open>time_end\<close> is the number of the
  caller's or \<open>null\<close>; its JSON text always has the members \<open>k\<close>, \<open>filters\<close> (with its
  three members) and \<open>rerank\<close>, and has \<open>meeting_id\<close> and \<open>query\<close> exactly when the caller
  supplied them. \<open>chat\<close> sends a \<open>POST\<close> with the header
  \<open>Content-Type: application/json\<close> to \<open>API_BASE/api/chat\<close> whose body is
  \<open>{ meeting_id, query }\<close> and nothing else. Both clients hand the response body to
  their caller as it is; neither reads \<open>answer\<close> or \<open>citations\<close>.
\<close>

theorem chat_request_bodies:
  "askChat_body to_number arg =
     Obj [(''meeting_id'', get_prop arg ''meeting_id''),
          (''query'', get_prop arg ''query''),
          (''k'', if get_prop arg ''k'' = Undefined then Num (Fin 12) else get_prop arg ''k''),
          (''filters'',
             Obj [(''speaker'', if truthy (get_prop arg ''speaker'')
                                then get_prop arg ''speaker'' else Null),
                  (''time_start'', Null),
                  (''time_end'', if truthy (get_prop arg ''time_end'')
                                 then Num (to_number (get_prop arg ''time_end'')) else Null)]),
          (''rerank'', if get_prop arg ''rerank'' = Undefined then Bool True
                       else get_prop arg ''rerank'')]
   \<and> json_has (askChat_body to_number arg) ''k''
   \<and> json_has (askChat_body to_number arg) ''filters''
   \<and> json_has (askChat_body to_number arg) ''rerank''
   \<and> json_has (get_prop (askChat_body to_number arg) ''filters'') ''speaker''
   \<and> json_has (get_prop (askChat_body to_number arg) ''filters'') ''time_start''
   \<and> json_has (get_prop (askChat_body to_number arg) ''filters'') ''time_end''
   \<and> (json_has (askChat_body to_number arg) ''meeting_id'' \<longleftrightarrow> get_prop arg ''meeting_id'' \<noteq> Undefined)
   \<and> (json_has (askChat_body to_number arg) ''query'' \<longleftrightarrow> get_prop arg ''query'' \<noteq> Undefined)
   \<and> (arg \<noteq> Undefined \<longrightarrow> arg \<noteq> Null
        \<longrightarrow> askChat to_number api_post arg
            = (case api_post ''/chat'' (askChat_body to_number arg) of
                 Inl err \<Rightarrow> Inl err | Inr r \<Rightarrow> Inr (r_data r)))
   \<and> chat_options meetingId query =
       \<lparr> opt_method = ''POST'', opt_headers = [(''Content-Type'', ''application/json'')],
         opt_body = Some (Obj [(''meeting_id'', meetingId), (''query'', query)]) \<rparr>
   \<and> (json_has (chat_body meetingId query) key
        \<longleftrightarrow> key = ''meeting_id'' \<and> meetingId \<noteq> Undefined \<or> key = ''query'' \<and> query \<noteq> Undefined)
   \<and> chat fetch API_BASE meetingId query
       = request fetch (API_BASE @ ''/api/chat'') (chat_options meetingId query)
   \<and> (fetch (API_BASE @ ''/api/chat'') (chat_options meetingId query) = Inr res \<longrightarrow> res_ok res
        \<longrightarrow> res_json res = Inr v \<longrightarrow> chat fetch API_BASE meetingId query = Inr v)"
proof (intro conjI)
  show "askChat_body to_number arg =
     Obj [(''meeting_id'', get_prop arg ''meeting_id''),
          (''query'', get_prop arg ''query''),
          (''k'', if get_prop arg ''k'' = Undefined then Num (Fin 12) else get_prop arg ''k''),
          (''filters'',
             Obj [(''speaker'', if truthy (get_prop arg ''speaker'')
                                then get_prop arg ''speaker'' else Null),
                  (''time_start'', Null),
                  (''time_end'', if truthy (get_prop arg ''time_end'')
                                 then Num (to_number (get_prop arg ''time_end'')) else Null)]),
          (''rerank'', if get_prop arg ''rerank'' = Undefined then Bool True
                       else get_prop arg ''rerank'')]"
    by (simp add: askChat_body_def Let_def with_default_def js_or_def)
  show "json_has (askChat_body to_number arg) ''k''"
    and "json_has (askChat_body to_number arg) ''filters''"
    and "json_has (askChat_body to_number arg) ''rerank''"
    using askChat_body_keys [of to_number arg] by simp_all
  show "json_has (get_prop (askChat_body to_number arg) ''filters'') ''speaker''"
    and "json_has (get_prop (askChat_body to_number arg) ''filters'') ''time_start''"
    and "json_has (get_prop (askChat_body to_number arg) ''filters'') ''time_end''"
    using askChat_body_filter_keys [of to_number arg] by simp_all
  show "json_has (askChat_body to_number arg) ''meeting_id'' \<longleftrightarrow> get_prop arg ''meeting_id'' \<noteq> Undefined"
    and "json_has (askChat_body to_number arg) ''query'' \<longleftrightarrow> get_prop arg ''query'' \<noteq> Undefined"
    using askChat_body_supplied [of to_number arg] by simp_all
  show "arg \<noteq> Undefined \<longrightarrow> arg \<noteq> Null
        \<longrightarrow> askChat to_number api_post arg
            = (case api_post ''/chat'' (askChat_body to_number arg) of
                 Inl err \<Rightarrow> Inl err | Inr r \<Rightarrow> Inr (r_data r))"
    by (simp add: askChat_def)
  show "chat_options meetingId query =
       \<lparr> opt_method = ''POST'', opt_headers = [(''Content-Type'', ''application/json'')],
         opt_body = Some (Obj [(''meeting_id'', meetingId), (''query'', query)]) \<rparr>"
    by (simp add: chat_options_def chat_body_def)
  show "json_has (chat_body meetingId query) key
        \<longleftrightarrow> key = ''meeting_id'' \<and> meetingId \<noteq> Undefined \<or> key = ''query'' \<and> query \<noteq> Undefined"
    by (auto simp: chat_body_def)
  show "chat fetch API_BASE meetingId query
       = request fetch (API_BASE @ ''/api/chat'') (chat_options meetingId query)"
    by (simp add: chat_def)
  show "fetch (API_BASE @ ''/api/chat'') (chat_options meetingId query) = Inr res \<longrightarrow> res_ok res
        \<longrightarrow> res_json res = Inr v \<longrightarrow> chat fetch API_BASE meetingId query = Inr v"
    using chat_passes_json [of fetch API_BASE meetingId query res v] by simp
qed

theorem chat_request_bodies_witness:
  "askChat_body (\<lambda>v. NaN) chat_question =
     Obj [(''meeting_id'', Str ''6f1c2d3e-4a5b-4c6d-8e7f-0123456789ab''),
          (''query'', Str ''What was decided?''),
          (''k'', Num (Fin 12)),
          (''filters'', Obj [(''speaker'', Null), (''time_start'', Null), (''time_end'', Null)]),
          (''rerank'', Bool True)]
   \<and> askChat (\<lambda>v. NaN) (\<lambda>url body. Inr \<lparr> r_status = 200, r_data = chat_answer \<rparr>) chat_question
       = Inr chat_answer
   \<and> chat_options (Str ''6f1c2d3e-4a5b-4c6d-8e7f-0123456789ab'') (Str ''What was decided?'') =
       \<lparr> opt_method = ''POST'', opt_headers = [(''Content-Type'', ''application/json'')],
         opt_body = Some (Obj [(''meeting_id'', Str ''6f1c2d3e-4a5b-4c6d-8e7f-0123456789ab''),
                               (''query'', Str ''What was decided?'')]) \<rparr>
   \<and> chat (\<lambda>url options. Inr \<lparr> res_ok = True, res_status = 200, res_statusText = ''OK'',
                                 res_json = Inr chat_answer \<rparr>)
        ''http://localhost:8000'' (Str ''6f1c2d3e-4a5b-4c6d-8e7f-0123456789ab'')
        (Str ''What was decided?'') = Inr chat_answer"
proof -
  note inst = chat_request_bodies [of "\<lambda>v. NaN" chat_question
      "\<lambda>url body. Inr \<lparr> r_status = 200, r_data = chat_answer \<rparr>"
      "Str ''6f1c2d3e-4a5b-4c6d-8e7f-0123456789ab''" "Str ''What was decided?''" "''k''"
      "\<lambda>url options. Inr \<lparr> res_ok = True, res_status = 200, res_statusText = ''OK'',
                                  res_json = Inr chat_answer \<rparr>"
      "''http://localhost:8000''"
      "\<lparr> res_ok = True, res_status = 200, res_statusText = ''OK'', res_json = Inr chat_answer \<rparr>"
      chat_answer]
  from inst have 1: "askChat_body (\<lambda>v. NaN) chat_question =
     Obj [(''meeting_id'', Str ''6f1c2d3e-4a5b-4c6d-8e7f-0123456789ab''),
          (''query'', Str ''What was decided?''),
          (''k'', Num (Fin 12)),
          (''filters'', Obj [(''speaker'', Null), (''time_start'', Null), (''time_end'', Null)]),
          (''rerank'', Bool True)]"
    by (simp add: chat_question_def)
  from inst have 2: "askChat (\<lambda>v. NaN) (\<lambda>url body. Inr \<lparr> r_status = 200, r_data = chat_answer \<rparr>)
      chat_question = Inr chat_answer"
    by (simp add: chat_question_def)
  from inst have 3: "chat_options (Str ''6f1c2d3e-4a5b-4c6d-8e7f-0123456789ab'') (Str ''What was decided?'') =
       \<lparr> opt_method = ''POST'', opt_headers = [(''Content-Type'', ''application/json'')],
         opt_body = Some (Obj [(''meeting_id'', Str ''6f1c2d3e-4a5b-4c6d-8e7f-0123456789ab''),
                               (''query'', Str ''What was decided?'')]) \<rparr>"
    by blast
  from inst have "res_ok \<lparr> res_ok = True, res_status = 200, res_statusText = ''OK'',
          res_json = Inr chat_answer \<rparr>
      \<longrightarrow> res_json \<lparr> res_ok = True, res_status = 200, res_statusText = ''OK'',
          res_json = Inr chat_answer \<rparr> = Inr chat_answer
      \<longrightarrow> chat (\<lambda>url options. Inr \<lparr> res_ok = True, res_status = 200, res_statusText = ''OK'',
                                 res_json = Inr chat_answer \<rparr>)
        ''http://localhost:8000'' (Str ''6f1c2d3e-4a5b-4c6d-8e7f-0123456789ab'')
        (Str ''What was decided?'') = Inr chat_answer"
    by blast
  then have 4: "chat (\<lambda>url options. Inr \<lparr> res_ok = True, res_status = 200, res_statusText = ''OK'',
                                 res_json = Inr chat_answer \<rparr>)
        ''http://localhost:8000'' (Str ''6f1c2d3e-4a5b-4c6d-8e7f-0123456789ab'')
        (Str ''What was decided?'') = Inr chat_answer"
    by simp
  from 1 2 3 4 show ?thesis by (intro conjI)
qed

subsection \<open>\<open>request\<close>\<close>

text \<open>
  Claim C9: for every response \<open>fetch\<close> gives, \<open>request\<close> throws an \<open>Error\<close> whose message
  is the status code, a space and the status text when the response is not ok, and throws
  nothing when it is ok; when the response is ok and \<open>res.json()\<close> fails, \<open>request\<close>
  resolves to the empty object, and otherwise to the parsed body.
\<close>

theorem request_throws_iff_not_ok:
  assumes "fetch url options = Inr res"
  shows "(\<not> res_ok res \<longrightarrow>
            request fetch url options
              = Inl (Error (show_nat (res_status res) @ '' '' @ res_statusText res)))
       \<and> (res_ok res \<longrightarrow> (\<exists>v. request fetch url options = Inr v))
       \<and> (res_ok res \<longrightarrow> (\<forall>err. res_json res = Inl err \<longrightarrow> request fetch url options = Inr (Obj [])))
       \<and> (res_ok res \<longrightarrow> (\<forall>v. res_json res = Inr v \<longrightarrow> request fetch url options = Inr v))"
  using assms by (cases "res_json res") (simp_all add: request_def)

theorem request_throws_iff_not_ok_witness:
  "request (\<lambda>url options. Inr not_found) ''/api/summarize'' default_options
     = Inl (Error ''404 Not Found'')
   \<and> request (\<lambda>url options. Inr ok_not_json) ''/api/summarize'' default_options
     = Inr (Obj [])"
proof -
  have 1: "(\<lambda>url options. Inr not_found) ''/api/summarize'' default_options
      = (Inr not_found :: js_error + response)"
    by simp
  have 2: "(\<lambda>url options. Inr ok_not_json) ''/api/summarize'' default_options
      = (Inr ok_not_json :: js_error + response)"
    by simp
  from request_throws_iff_not_ok [OF 1] have
    "request (\<lambda>url options. Inr not_found) ''/api/summarize'' default_options
     = Inl (Error ''404 Not Found'')"
    by (simp add: not_found_def show_nat_404)
  moreover from request_throws_iff_not_ok [OF 2] have
    "request (\<lambda>url options. Inr ok_not_json) ''/api/summarize'' default_options
     = Inr (Obj [])"
    by (simp add: ok_not_json_def)
  ultimately show ?thesis by (rule conjI)
qed

subsection \<open>\<open>getUtterances\<close>\<close>

text \<open>
  Claim C10, as it is written, says that \<open>getUtterances\<close> always resolves to an array. A
  body whose \<open>items\<close> is a number other than zero is passed on as that number.
\<close>

theorem getUtterances_array_counterexample:
  "getUtterances (\<lambda>url config. Inr \<lparr> r_status = 200, r_data = Obj [(''items'', Num (Fin 5))] \<rparr>)
      (Str ''M'') = Inr (Num (Fin 5))
   \<and> \<not> is_array (Num (Fin 5))"
  by (simp add: getUtterances_def js_or_def optional_chain_def)

text \<open>
  Claim C10, amended: when the request succeeds, \<open>getUtterances\<close> resolves to
  \<open>r.data.items\<close> when that value is truthy and to the empty array otherwise, in
  particular when the response body is missing, null or lacks \<open>items\<close>; it never resolves
  to \<open>null\<close> or \<open>undefined\<close>, and it resolves to an array whenever \<open>items\<close> is one.
\<close>

theorem getUtterances_result:
  assumes "api_get ''/utterances'' (Obj [(''params'', Obj [(''meeting_id'', meeting_id)])]) = Inr r"
  shows "\<exists>v. getUtterances api_get meeting_id = Inr v
       \<and> v \<noteq> Null \<and> v \<noteq> Undefined
       \<and> (truthy (optional_chain (r_data r) ''items'') \<longrightarrow> v = get_prop (r_data r) ''items'')
       \<and> (\<not> truthy (optional_chain (r_data r) ''items'') \<longrightarrow> v = Arr [])
       \<and> (r_data r = Undefined \<longrightarrow> v = Arr [])
       \<and> (r_data r = Null \<longrightarrow> v = Arr [])
       \<and> (get_prop (r_data r) ''items'' = Undefined \<longrightarrow> v = Arr [])
       \<and> (is_array (get_prop (r_data r) ''items'') \<longrightarrow> is_array v)"
proof -
  let ?items = "optional_chain (r_data r) ''items''"
  have res: "getUtterances api_get meeting_id = Inr (js_or ?items (Arr []))"
    using assms by (simp add: getUtterances_def)
  have d: "js_or ?items (Arr []) \<noteq> Null \<and> js_or ?items (Arr []) \<noteq> Undefined"
    using js_or_defined [of "Arr []" ?items] by simp
  have t: "truthy ?items \<longrightarrow> js_or ?items (Arr []) = get_prop (r_data r) ''items''"
    by (auto simp: js_or_def optional_chain_def)
  have f: "\<not> truthy ?items \<longrightarrow> js_or ?items (Arr []) = Arr []"
    by (simp add: js_or_def)
  have u: "r_data r = Undefined \<longrightarrow> js_or ?items (Arr []) = Arr []"
    by (simp add: js_or_def optional_chain_def)
  have n: "r_data r = Null \<longrightarrow> js_or ?items (Arr []) = Arr []"
    by (simp add: js_or_def optional_chain_def)
  have l: "get_prop (r_data r) ''items'' = Undefined \<longrightarrow> js_or ?items (Arr []) = Arr []"
    by (auto simp: js_or_def optional_chain_def)
  have a: "is_array (get_prop (r_data r) ''items'') \<longrightarrow> is_array (js_or ?items (Arr []))"
    by (simp add: js_or_def optional_chain_def)
  from res d t f u n l a show ?thesis by blast
qed

theorem getUtterances_result_witness:
  "getUtterances (\<lambda>url config. Inr \<lparr> r_status = 200, r_data = Obj [(''error'', Str ''no such meeting'')] \<rparr>)
      (Str ''M'') = Inr (Arr [])
   \<and> getUtterances (\<lambda>url config. Inr \<lparr> r_status = 200, r_data = Null \<rparr>) (Str ''M'') = Inr (Arr [])"
proof -
  have 1: "(\<lambda>url config. Inr \<lparr> r_status = 200, r_data = Obj [(''error'', Str ''no such meeting'')] \<rparr>)
      ''/utterances'' (Obj [(''params'', Obj [(''meeting_id'', Str ''M'')])])
    = (Inr \<lparr> r_status = 200, r_data = Obj [(''error'', Str ''no such meeting'')] \<rparr> :: js_error + axios_response)"
    by simp
  have 2: "(\<lambda>url config. Inr \<lparr> r_status = 200, r_data = Null \<rparr>)
      ''/utterances'' (Obj [(''params'', Obj [(''meeting_id'', Str ''M'')])])
    = (Inr \<lparr> r_status = 200, r_data = Null \<rparr> :: js_error + axios_response)"
    by simp
  from getUtterances_result [OF 1] have
    "getUtterances (\<lambda>url config. Inr \<lparr> r_status = 200, r_data = Obj [(''error'', Str ''no such meeting'')] \<rparr>)
      (Str ''M'') = Inr (Arr [])"
    by auto
  moreover from getUtterances_result [OF 2] have
    "getUtterances (\<lambda>url config. Inr \<lparr> r_status = 200, r_data = Null \<rparr>) (Str ''M'') = Inr (Arr [])"
    by auto
  ultimately show ?thesis by (rule conjI)
qed

end
